theory Spec2Isabelle
  imports Main "HOL-Library.AList"
begin

section \<open>Python values\<close>

text \<open>
  A Python \<open>str\<close> is a sequence of Unicode code points. The password is the only string
  whose code points the program looks at (it is encoded to UTF-8 and cut), so it is a list
  of code points; user names, e-mail addresses, digests and messages are only compared
  and stored, and are HOL strings. A \<open>bytes\<close> value is a list of numbers below 256.
\<close>

type_synonym unicode = "nat list"
type_synonym bytes = "nat list"

text \<open>
  The exceptions that cross the functions of \<open>auth.py\<close>: the \<open>HTTPException\<close>s the
  module raises itself (status code, detail, headers), and the exceptions of the libraries
  it calls. \<open>ExpiredSignatureError\<close> and \<open>JWTClaimsError\<close> are subclasses of
  \<open>JWTError\<close> in \<open>jose.exceptions\<close>; \<open>OtherException\<close> stands for any
  exception class that the module never names.
\<close>

datatype exn =
    HTTPException (status_code: nat) (detail: string) (headers: "(string \<times> string) list option")
  | JWTError
  | ExpiredSignatureError
  | JWTClaimsError
  | UnknownHashError
  | MalformedHashError
  | PasswordValueError
  | UnicodeEncodeError
  | ValidationError
  | OtherException string

text \<open>\<open>isinstance(e, JWTError)\<close>: what \<open>except JWTError\<close> catches.\<close>

fun is_JWTError :: "exn \<Rightarrow> bool" where
  "is_JWTError JWTError = True"
| "is_JWTError ExpiredSignatureError = True"
| "is_JWTError JWTClaimsError = True"
| "is_JWTError _ = False"

subsection \<open>UTF-8\<close>

text \<open>
  \<open>str.encode('utf-8')\<close>: one to four bytes per code point; a surrogate code point
  (\<open>0xD800\<close> to \<open>0xDFFF\<close>) cannot be encoded and raises \<open>UnicodeEncodeError\<close>.
  Python strings hold no value from \<open>0x110000\<close> on; the model raises there too.
\<close>

definition utf8_encode_char :: "nat \<Rightarrow> exn + bytes" where
  "utf8_encode_char c =
     (if c < 0x80 then Inr [c]
      else if c < 0x800 then Inr [0xC0 + c div 64, 0x80 + c mod 64]
      else if c < 0x10000 then
        (if 0xD800 \<le> c \<and> c \<le> 0xDFFF then Inl UnicodeEncodeError
         else Inr [0xE0 + c div 4096, 0x80 + c div 64 mod 64, 0x80 + c mod 64])
      else if c < 0x110000 then
        Inr [0xF0 + c div 262144, 0x80 + c div 4096 mod 64, 0x80 + c div 64 mod 64,
             0x80 + c mod 64]
      else Inl UnicodeEncodeError)"

fun utf8_encode :: "unicode \<Rightarrow> exn + bytes" where
  "utf8_encode [] = Inr []"
| "utf8_encode (c # cs) =
     (case utf8_encode_char c of
        Inl e \<Rightarrow> Inl e
      | Inr bs \<Rightarrow> (case utf8_encode cs of Inl e \<Rightarrow> Inl e | Inr rest \<Rightarrow> Inr (bs @ rest)))"

definition is_cont :: "nat \<Rightarrow> bool" where
  "is_cont b \<longleftrightarrow> 0x80 \<le> b \<and> b \<le> 0xBF"

text \<open>The range of the second byte after a three-byte or four-byte lead byte.\<close>

definition second_ok :: "nat \<Rightarrow> nat \<Rightarrow> bool" where
  "second_ok b b1 \<longleftrightarrow>
     (if b = 0xE0 then 0xA0 \<le> b1 \<and> b1 \<le> 0xBF
      else if b = 0xED then 0x80 \<le> b1 \<and> b1 \<le> 0x9F
      else if b = 0xF0 then 0x90 \<le> b1 \<and> b1 \<le> 0xBF
      else if b = 0xF4 then 0x80 \<le> b1 \<and> b1 \<le> 0x8F
      else is_cont b1)"

text \<open>
  \<open>bytes.decode('utf-8', errors='ignore')\<close>: a well-formed sequence gives its code
  point; an ill-formed one is dropped up to the byte that breaks it, and decoding goes on
  from that byte; a sequence that the end of the input cuts short is dropped.
\<close>

fun utf8_decode_ignore :: "bytes \<Rightarrow> unicode" where
  "utf8_decode_ignore [] = []"
| "utf8_decode_ignore (b # bs) =
     (if b < 0x80 then b # utf8_decode_ignore bs
      else if 0xC2 \<le> b \<and> b \<le> 0xDF then
        (case bs of
           [] \<Rightarrow> []
         | b1 # r1 \<Rightarrow>
             if is_cont b1 then ((b - 0xC0) * 64 + (b1 - 0x80)) # utf8_decode_ignore r1
             else utf8_decode_ignore bs)
      else if 0xE0 \<le> b \<and> b \<le> 0xEF then
        (case bs of
           [] \<Rightarrow> []
         | b1 # r1 \<Rightarrow>
             if \<not> second_ok b b1 then utf8_decode_ignore bs
             else
               (case r1 of
                  [] \<Rightarrow> []
                | b2 # r2 \<Rightarrow>
                    if is_cont b2
                    then ((b - 0xE0) * 4096 + (b1 - 0x80) * 64 + (b2 - 0x80)) # utf8_decode_ignore r2
                    else utf8_decode_ignore r1))
      else if 0xF0 \<le> b \<and> b \<le> 0xF4 then
        (case bs of
           [] \<Rightarrow> []
         | b1 # r1 \<Rightarrow>
             if \<not> second_ok b b1 then utf8_decode_ignore bs
             else
               (case r1 of
                  [] \<Rightarrow> []
                | b2 # r2 \<Rightarrow>
                    if \<not> is_cont b2 then utf8_decode_ignore r1
                    else
                      (case r2 of
                         [] \<Rightarrow> []
                       | b3 # r3 \<Rightarrow>
                           if is_cont b3
                           then ((b - 0xF0) * 262144 + (b1 - 0x80) * 4096 + (b2 - 0x80) * 64
                                   + (b3 - 0x80)) # utf8_decode_ignore r3
                           else utf8_decode_ignore r2)))
      else utf8_decode_ignore bs)"

section \<open>The password hasher\<close>

text \<open>
  \<open>pwd_context = CryptContext(schemes=["bcrypt"], deprecated="auto")\<close> is an object of
  the passlib library: the program only calls its \<open>hash\<close> and \<open>verify\<close>. The two
  methods are parameters of the model. \<open>hash\<close> draws a random salt, which is an argument
  here; both can raise.
\<close>

record crypt_context =
  ctx_hash :: "string \<Rightarrow> unicode \<Rightarrow> exn + string"
  ctx_verify :: "unicode \<Rightarrow> string \<Rightarrow> exn + bool"

definition verify_password :: "crypt_context \<Rightarrow> unicode \<Rightarrow> string \<Rightarrow> exn + bool" where
  "verify_password pwd_context plain_password hashed_password =
     ctx_verify pwd_context plain_password hashed_password"

definition get_password_hash :: "crypt_context \<Rightarrow> string \<Rightarrow> unicode \<Rightarrow> exn + string" where
  "get_password_hash pwd_context salt password =
     (case utf8_encode password of
        Inl e \<Rightarrow> Inl e
      | Inr encoded \<Rightarrow>
          (let password_bytes = take 72 encoded;
               truncated_password = utf8_decode_ignore password_bytes
           in ctx_hash pwd_context salt truncated_password))"

section \<open>The credential store and registration\<close>

text \<open>
  \<open>User\<close> is the response model (\<open>username\<close>, \<open>email\<close>). The dictionary
  \<open>new_user_data\<close> that \<open>signup\<close> stores has these two keys and \<open>hashed_password\<close>;
  \<open>User(**new_user_data)\<close> keeps the fields the model declares and ignores the third,
  which is the record truncation \<open>User.truncate\<close>.
\<close>

record User =
  username :: string
  email :: string

record user_data = User +
  hashed_password :: string

text \<open>
  \<open>TEMP_USER_DATABASE\<close> is a dictionary from user name to stored record: an association
  list in insertion order. \<open>k in d\<close> is \<open>map_of d k \<noteq> None\<close>, \<open>d.values()\<close> is
  \<open>map snd d\<close>, and \<open>d[k] = v\<close> is \<open>AList.update k v d\<close>.
\<close>

type_synonym database = "(string \<times> user_data) list"

definition TEMP_USER_DATABASE :: database where
  "TEMP_USER_DATABASE = []"

text \<open>
  \<open>signup(user)\<close>, with the fields of the validated \<open>UserSignup\<close> as arguments. It
  returns the store after the call and either the exception raised or the response.
\<close>

definition signup ::
  "crypt_context \<Rightarrow> string \<Rightarrow> database \<Rightarrow> string \<Rightarrow> string \<Rightarrow> unicode
     \<Rightarrow> database \<times> (exn + User)" where
  "signup pwd_context salt db user_username user_email user_password =
     (if map_of db user_username \<noteq> None then
        (db, Inl (HTTPException 400 ''Username already registered'' None))
      else if list_ex (\<lambda>u. email u = user_email) (map snd db) then
        (db, Inl (HTTPException 400 ''Email already registered'' None))
      else
        (case get_password_hash pwd_context salt user_password of
           Inl e \<Rightarrow> (db, Inl e)
         | Inr hashed \<Rightarrow>
             (let new_user_data =
                    \<lparr>username = user_username, email = user_email, hashed_password = hashed\<rparr>
              in (AList.update user_username new_user_data db,
                  Inr (User.truncate new_user_data)))))"

section \<open>Tokens\<close>

text \<open>
  The values that occur in a claims dictionary: \<open>None\<close>, a string, an integer (a JSON
  number) and a \<open>datetime\<close>. A \<open>datetime\<close> is an instant in microseconds since the
  epoch, and a \<open>timedelta\<close> a number of microseconds, both of any sign.
\<close>

datatype claim = CNone | CStr string | CInt int | CDatetime int

type_synonym claims = "(string \<times> claim) list"

text \<open>\<open>d.get(k)\<close>: the value under the key, \<open>None\<close> without one.\<close>

definition dict_get :: "claims \<Rightarrow> string \<Rightarrow> claim" where
  "dict_get d k = (case map_of d k of None \<Rightarrow> CNone | Some v \<Rightarrow> v)"

text \<open>
  \<open>jwt\<close> is the module of the python-jose library: the program calls
  \<open>jwt.encode(claims, key, algorithm=...)\<close> and
  \<open>jwt.decode(token, key, algorithms=[...])\<close>. Both are parameters of the model;
  \<open>decode\<close> reads the clock, which is its last argument here. The program never looks
  inside a token, so the type of tokens is a parameter too.
\<close>

record 'tok jwt_module =
  jwt_encode :: "claims \<Rightarrow> string \<Rightarrow> string \<Rightarrow> exn + 'tok"
  jwt_decode :: "'tok \<Rightarrow> string \<Rightarrow> string list \<Rightarrow> int \<Rightarrow> exn + claims"

definition ALGORITHM :: string where
  "ALGORITHM = ''HS256''"

definition ACCESS_TOKEN_EXPIRE_MINUTES :: int where
  "ACCESS_TOKEN_EXPIRE_MINUTES = 60"

text \<open>\<open>timedelta(minutes=m)\<close>, in microseconds.\<close>

definition timedelta_minutes :: "int \<Rightarrow> int" where
  "timedelta_minutes m = m * 60000000"

text \<open>
  Lines 36 to 42 of \<open>create_access_token\<close>: the dictionary handed to \<open>jwt.encode\<close>.
  \<open>if expires_delta:\<close> tests the truth value of an \<open>Optional[timedelta]\<close>: \<open>None\<close>
  is false, and so is \<open>timedelta(0)\<close>. \<open>now\<close> is \<open>datetime.now(timezone.utc)\<close>.
\<close>

definition to_encode :: "int \<Rightarrow> claims \<Rightarrow> int option \<Rightarrow> claims" where
  "to_encode now data expires_delta =
     (let expire =
            (case expires_delta of
               None \<Rightarrow> now + timedelta_minutes ACCESS_TOKEN_EXPIRE_MINUTES
             | Some delta \<Rightarrow>
                 if delta \<noteq> 0 then now + delta
                 else now + timedelta_minutes ACCESS_TOKEN_EXPIRE_MINUTES)
      in AList.update ''exp'' (CDatetime expire) data)"

definition create_access_token ::
  "'tok jwt_module \<Rightarrow> string \<Rightarrow> int \<Rightarrow> claims \<Rightarrow> int option \<Rightarrow> exn + 'tok" where
  "create_access_token jwt SECRET_KEY now data expires_delta =
     jwt_encode jwt (to_encode now data expires_delta) SECRET_KEY ALGORITHM"

section \<open>Login and identity resolution\<close>

record 'tok Token =
  access_token :: 'tok
  token_type :: string

definition login_for_access_token ::
  "crypt_context \<Rightarrow> 'tok jwt_module \<Rightarrow> string \<Rightarrow> int \<Rightarrow> database \<Rightarrow> string \<Rightarrow> unicode
     \<Rightarrow> exn + 'tok Token" where
  "login_for_access_token pwd_context jwt SECRET_KEY now db form_username form_password =
     (case map_of db form_username of
        None \<Rightarrow> Inl (HTTPException 401 ''Incorrect username or password'' None)
      | Some user_data \<Rightarrow>
          (case verify_password pwd_context form_password (hashed_password user_data) of
             Inl e \<Rightarrow> Inl e
           | Inr ok \<Rightarrow>
               if \<not> ok then Inl (HTTPException 401 ''Incorrect username or password'' None)
               else
                 (case create_access_token jwt SECRET_KEY now [(''sub'', CStr form_username)]
                         (Some (timedelta_minutes ACCESS_TOKEN_EXPIRE_MINUTES)) of
                    Inl e \<Rightarrow> Inl e
                  | Inr tok \<Rightarrow> Inr \<lparr>access_token = tok, token_type = ''bearer''\<rparr>)))"

definition credentials_exception :: exn where
  "credentials_exception =
     HTTPException 401 ''Could not validate credentials'' (Some [(''WWW-Authenticate'', ''Bearer'')])"

text \<open>
  The \<open>try\<close> block of \<open>get_current_user\<close> (lines 137 to 144): the user name of
  \<open>token_data\<close>. \<open>except JWTError\<close> turns the library's \<open>JWTError\<close>s into
  \<open>credentials_exception\<close>; any other exception passes. \<open>TokenData(username=...)\<close>
  validates that the subject is a string.
\<close>

definition token_data_username :: "'tok jwt_module \<Rightarrow> string \<Rightarrow> int \<Rightarrow> 'tok \<Rightarrow> exn + string" where
  "token_data_username jwt SECRET_KEY now token =
     (case jwt_decode jwt token SECRET_KEY [ALGORITHM] now of
        Inl e \<Rightarrow> if is_JWTError e then Inl credentials_exception else Inl e
      | Inr payload \<Rightarrow>
          (case dict_get payload ''sub'' of
             CNone \<Rightarrow> Inl credentials_exception
           | CStr sub \<Rightarrow> Inr sub
           | _ \<Rightarrow> Inl ValidationError))"

definition get_current_user ::
  "'tok jwt_module \<Rightarrow> string \<Rightarrow> int \<Rightarrow> database \<Rightarrow> 'tok \<Rightarrow> exn + user_data" where
  "get_current_user jwt SECRET_KEY now db token =
     (case token_data_username jwt SECRET_KEY now token of
        Inl e \<Rightarrow> Inl e
      | Inr name \<Rightarrow>
          (case map_of db name of
             None \<Rightarrow> Inl credentials_exception
           | Some user \<Rightarrow> Inr user))"

section \<open>The service as a transition system\<close>

text \<open>
  A request carries what the handler reads from outside: the salt drawn by the hasher for
  a registration, the clock for a login or an identity resolution. Only \<open>signup\<close>
  assigns to the store; the other two handlers read it.
\<close>

datatype 'tok request =
    Register string string unicode string
  | Login string unicode int
  | ResolveIdentity 'tok int

datatype 'tok response =
    Registered "exn + User"
  | LoggedIn "exn + 'tok Token"
  | Resolved "exn + user_data"

fun handle ::
  "crypt_context \<Rightarrow> 'tok jwt_module \<Rightarrow> string \<Rightarrow> database \<Rightarrow> 'tok request
     \<Rightarrow> database \<times> 'tok response" where
  "handle pwd_context jwt key db (Register u e p salt) =
     (case signup pwd_context salt db u e p of (db', r) \<Rightarrow> (db', Registered r))"
| "handle pwd_context jwt key db (Login u p now) =
     (db, LoggedIn (login_for_access_token pwd_context jwt key now db u p))"
| "handle pwd_context jwt key db (ResolveIdentity tok now) =
     (db, Resolved (get_current_user jwt key now db tok))"

fun run ::
  "crypt_context \<Rightarrow> 'tok jwt_module \<Rightarrow> string \<Rightarrow> database \<Rightarrow> 'tok request list \<Rightarrow> database" where
  "run pwd_context jwt key db [] = db"
| "run pwd_context jwt key db (r # rs) =
     run pwd_context jwt key (fst (handle pwd_context jwt key db r)) rs"

section \<open>Reference libraries\<close>

text \<open>
  Idealised instances of the two libraries, in the symbolic style of protocol
  verification: they fix one behaviour that the libraries document, so that the functions
  above can be run on concrete inputs.
\<close>

subsection \<open>An ideal bcrypt context\<close>

text \<open>
  A digest is the identifier \<open>$2b$12$\<close>, 22 characters of salt, and a checksum. bcrypt
  reads at most the first 72 bytes of the UTF-8 encoding of the secret; the ideal
  checksum is those bytes in hexadecimal, so that two secrets have the same checksum
  exactly when bcrypt is given the same key. passlib refuses a secret with a NUL byte.
\<close>

definition hex_digit :: "nat \<Rightarrow> char" where
  "hex_digit n = ''0123456789abcdef'' ! n"

definition hex_of_bytes :: "bytes \<Rightarrow> string" where
  "hex_of_bytes bs = concat (map (\<lambda>b. [hex_digit (b div 16), hex_digit (b mod 16)]) bs)"

definition ideal_checksum :: "unicode \<Rightarrow> exn + string" where
  "ideal_checksum secret =
     (case utf8_encode secret of
        Inl e \<Rightarrow> Inl e
      | Inr bs \<Rightarrow> if 0 \<in> set bs then Inl PasswordValueError else Inr (hex_of_bytes (take 72 bs)))"

definition ideal_hash :: "string \<Rightarrow> unicode \<Rightarrow> exn + string" where
  "ideal_hash salt secret =
     (case ideal_checksum secret of
        Inl e \<Rightarrow> Inl e
      | Inr c \<Rightarrow> Inr (''$2b$12$'' @ take 22 (salt @ replicate 22 CHR ''.'') @ c))"

text \<open>
  \<open>CryptContext.verify\<close> first looks for a configured scheme that identifies the
  digest, and raises \<open>UnknownHashError\<close> when there is none, before it looks at the
  secret. The only scheme here is bcrypt, whose \<open>identify\<close> is
  \<open>hash.startswith(ident_values)\<close> with the five identifiers below.
\<close>

definition bcrypt_idents :: "string list" where
  "bcrypt_idents = [''$2$'', ''$2a$'', ''$2x$'', ''$2y$'', ''$2b$'']"

definition bcrypt_identify :: "string \<Rightarrow> bool" where
  "bcrypt_identify digest \<longleftrightarrow>
     list_ex (\<lambda>ident. take (length ident) digest = ident) bcrypt_idents"

text \<open>
  An identified digest is then parsed, and the parser raises on a string it cannot take
  apart (\<open>MalformedHashError\<close> and other subclasses of \<open>ValueError\<close>). The ideal
  context parses the digests of its own making only: it raises on every other identified
  string, also on a digest of another bcrypt variant or cost that passlib would verify,
  and it does not look at the length of the checksum, which is 31 characters in passlib
  and up to 144 here.
\<close>

definition ideal_verify :: "unicode \<Rightarrow> string \<Rightarrow> exn + bool" where
  "ideal_verify secret digest =
     (if \<not> bcrypt_identify digest then Inl UnknownHashError
      else if take 7 digest \<noteq> ''$2b$12$'' then Inl MalformedHashError
      else if length digest < 29 then Inl MalformedHashError
      else
        (case ideal_checksum secret of
           Inl e \<Rightarrow> Inl e
         | Inr c \<Rightarrow> Inr (drop 29 digest = c)))"

definition ideal_bcrypt :: crypt_context where
  "ideal_bcrypt = \<lparr>ctx_hash = ideal_hash, ctx_verify = ideal_verify\<rparr>"

subsection \<open>An ideal JWT module\<close>

text \<open>
  A token is either a signed payload, which records the algorithm and the key of its
  signature, or a string that is no token. \<open>encode\<close> turns a \<open>datetime\<close> into whole
  seconds since the epoch. \<open>decode\<close> raises \<open>JWTError\<close> on a string that is no token,
  on an algorithm that is not allowed and on a signature made with another key,
  \<open>ExpiredSignatureError\<close> when \<open>exp\<close> is less than the current second, and
  \<open>JWTClaimsError\<close> when \<open>exp\<close> is no number or \<open>sub\<close> is no string. The
  module covers the payloads that the service signs: a subject, and an expiry that is an
  integer. It does not tell a null \<open>exp\<close> from a missing one and converts no numeric
  string, as python-jose does, and it checks no other registered claim.
\<close>

datatype ideal_token = Signed string string claims | Garbage string

definition json_claims :: "claims \<Rightarrow> claims" where
  "json_claims cs =
     map (\<lambda>(k, v). (k, case v of CDatetime t \<Rightarrow> CInt (t div 1000000) | _ \<Rightarrow> v)) cs"

definition ideal_encode :: "claims \<Rightarrow> string \<Rightarrow> string \<Rightarrow> exn + ideal_token" where
  "ideal_encode cs key alg = Inr (Signed alg key (json_claims cs))"

definition check_sub :: "claims \<Rightarrow> exn + claims" where
  "check_sub payload =
     (case dict_get payload ''sub'' of
        CNone \<Rightarrow> Inr payload
      | CStr s \<Rightarrow> Inr payload
      | _ \<Rightarrow> Inl JWTClaimsError)"

definition ideal_decode :: "ideal_token \<Rightarrow> string \<Rightarrow> string list \<Rightarrow> int \<Rightarrow> exn + claims" where
  "ideal_decode tok key algs now =
     (case tok of
        Garbage s \<Rightarrow> Inl JWTError
      | Signed alg k payload \<Rightarrow>
          if alg \<notin> set algs then Inl JWTError
          else if k \<noteq> key then Inl JWTError
          else
            (case dict_get payload ''exp'' of
               CNone \<Rightarrow> check_sub payload
             | CInt e \<Rightarrow> if e < now div 1000000 then Inl ExpiredSignatureError else check_sub payload
             | _ \<Rightarrow> Inl JWTClaimsError))"

definition ideal_jwt :: "ideal_token jwt_module" where
  "ideal_jwt = \<lparr>jwt_encode = ideal_encode, jwt_decode = ideal_decode\<rparr>"

text \<open>
  What the round trip of claim C2 needs from the library, for one key: a token encoded
  from a subject and an expiry that is still ahead decodes, under the same key and
  algorithm, to a payload with that subject and the expiry in whole seconds.
\<close>

definition jwt_round_trip :: "'tok jwt_module \<Rightarrow> string \<Rightarrow> bool" where
  "jwt_round_trip jwt key \<longleftrightarrow>
     (\<forall>sub t now. now < t \<longrightarrow>
        (\<exists>tok payload.
           jwt_encode jwt [(''sub'', CStr sub), (''exp'', CDatetime t)] key ALGORITHM = Inr tok \<and>
           jwt_decode jwt tok key [ALGORITHM] now = Inr payload \<and>
           dict_get payload ''sub'' = CStr sub \<and>
           dict_get payload ''exp'' = CInt (t div 1000000)))"

section \<open>Invariants and examples\<close>

text \<open>
  The uniqueness invariant of the store: every record is filed under its own user name,
  no user name occurs twice and no e-mail address occurs twice.
\<close>

definition store_inv :: "database \<Rightarrow> bool" where
  "store_inv db \<longleftrightarrow>
     map fst db = map (username \<circ> snd) db \<and>
     distinct (map fst db) \<and>
     distinct (map (email \<circ> snd) db)"

text \<open>
  The record that registering \<open>alice\<close> with password \<open>pw\<close> stores under the ideal
  context, and the environment of the examples.
\<close>

definition alice :: user_data where
  "alice = \<lparr>username = ''alice'', email = ''a@x.com'',
             hashed_password = ''$2b$12$saltsaltsaltsaltsalt..7077''\<rparr>"

definition example_key :: string where
  "example_key = ''placeholder_secret_key''"

definition example_now :: int where
  "example_now = 1700000000000000"

section \<open>Registration\<close>

lemma update_fresh: "map_of db k = None \<Longrightarrow> AList.update k v db = db @ [(k, v)]"
  by (induction db) (auto split: if_splits)

text \<open>A call of \<open>signup\<close> leaves the store as it is or appends one record.\<close>

lemma signup_store:
  "fst (signup ctx salt db u e p) = db \<or>
   (map_of db u = None \<and> e \<notin> set (map (email \<circ> snd) db) \<and>
    (\<exists>h. get_password_hash ctx salt p = Inr h \<and>
      fst (signup ctx salt db u e p) =
        db @ [(u, \<lparr>username = u, email = e, hashed_password = h\<rparr>)]))"
  by (auto simp: signup_def Let_def list_ex_iff update_fresh split: sum.splits)

lemma example_hash:
  "get_password_hash ideal_bcrypt ''saltsaltsaltsaltsalt..'' [112, 119] =
     Inr ''$2b$12$saltsaltsaltsaltsalt..7077''"
  by code_simp

lemma example_signup:
  "signup ideal_bcrypt ''saltsaltsaltsaltsalt..'' [] ''alice'' ''a@x.com'' [112, 119] =
     ([(''alice'', alice)], Inr \<lparr>username = ''alice'', email = ''a@x.com''\<rparr>)"
  by (simp add: signup_def example_hash alice_def User.truncate_def)

text \<open>
  C6. \<open>signup\<close> tests the user name first: with the user name taken the call raises
  "Username already registered" whatever the e-mail address is, and so never "Email already
  registered"; with the user name free and the e-mail address taken it raises "Email
  already registered"; with both free it raises no conflict of its own (the outcome is
  that of hashing the password).
\<close>

theorem signup_conflict_precedence:
  "(map_of db u \<noteq> None \<longrightarrow>
      snd (signup ctx salt db u e p) =
        Inl (HTTPException 400 ''Username already registered'' None) \<and>
      snd (signup ctx salt db u e p) \<noteq>
        Inl (HTTPException 400 ''Email already registered'' None)) \<and>
   (map_of db u = None \<and> e \<in> set (map (email \<circ> snd) db) \<longrightarrow>
      snd (signup ctx salt db u e p) =
        Inl (HTTPException 400 ''Email already registered'' None)) \<and>
   (map_of db u = None \<and> e \<notin> set (map (email \<circ> snd) db) \<longrightarrow>
      snd (signup ctx salt db u e p) =
        (case get_password_hash ctx salt p of
           Inl x \<Rightarrow> Inl x
         | Inr h \<Rightarrow> Inr \<lparr>username = u, email = e\<rparr>))"
  by (auto simp: signup_def list_ex_iff Let_def User.truncate_def split: sum.splits)

theorem signup_conflict_precedence_witness:
  "map_of [(''alice'', alice)] ''alice'' \<noteq> None \<and>
   snd (signup ideal_bcrypt ''s'' [(''alice'', alice)] ''alice'' ''a@x.com'' [112]) =
     Inl (HTTPException 400 ''Username already registered'' None) \<and>
   snd (signup ideal_bcrypt ''s'' [(''alice'', alice)] ''alice'' ''b@y.com'' [112]) =
     Inl (HTTPException 400 ''Username already registered'' None) \<and>
   map_of [(''alice'', alice)] ''bob'' = None \<and>
   ''a@x.com'' \<in> set (map (email \<circ> snd) [(''alice'', alice)]) \<and>
   snd (signup ideal_bcrypt ''s'' [(''alice'', alice)] ''bob'' ''a@x.com'' [112]) =
     Inl (HTTPException 400 ''Email already registered'' None)"
  using
    signup_conflict_precedence [where db = "[(''alice'', alice)]" and u = "''alice''"
      and e = "''a@x.com''" and ctx = ideal_bcrypt and salt = "''s''" and p = "[112]"]
    signup_conflict_precedence [where db = "[(''alice'', alice)]" and u = "''alice''"
      and e = "''b@y.com''" and ctx = ideal_bcrypt and salt = "''s''" and p = "[112]"]
    signup_conflict_precedence [where db = "[(''alice'', alice)]" and u = "''bob''"
      and e = "''a@x.com''" and ctx = ideal_bcrypt and salt = "''s''" and p = "[112]"]
  by (simp add: alice_def)

text \<open>
  C9. A successful \<open>signup\<close> returns the \<open>User\<close> made of the user name and the e-mail
  address of the request, and nothing else: the digest is in the record it stores, which
  has the same two fields, and not in the response.
\<close>

theorem signup_returns_public_view:
  "snd (signup ctx salt db u e p) = Inr r \<Longrightarrow>
     r = \<lparr>username = u, email = e\<rparr> \<and>
     (\<exists>h. get_password_hash ctx salt p = Inr h \<and>
          map_of (fst (signup ctx salt db u e p)) u =
            Some \<lparr>username = u, email = e, hashed_password = h\<rparr>)"
  by (auto simp: signup_def Let_def User.truncate_def AList.update_conv'
      split: if_splits sum.splits)

theorem signup_returns_public_view_witness:
  "snd (signup ideal_bcrypt ''saltsaltsaltsaltsalt..'' [] ''alice'' ''a@x.com'' [112, 119]) =
     Inr \<lparr>username = ''alice'', email = ''a@x.com''\<rparr> \<and>
   (\<exists>h. get_password_hash ideal_bcrypt ''saltsaltsaltsaltsalt..'' [112, 119] = Inr h \<and>
        map_of (fst (signup ideal_bcrypt ''saltsaltsaltsaltsalt..'' [] ''alice'' ''a@x.com''
                       [112, 119])) ''alice'' =
          Some \<lparr>username = ''alice'', email = ''a@x.com'', hashed_password = h\<rparr>)"
  using signup_returns_public_view [where ctx = ideal_bcrypt
      and salt = "''saltsaltsaltsaltsalt..''" and db = "[]" and u = "''alice''"
      and e = "''a@x.com''" and p = "[112, 119]"
      and r = "\<lparr>username = ''alice'', email = ''a@x.com''\<rparr>"]
  by (simp add: example_signup)

text \<open>
  C10. A \<open>signup\<close> that raises, with either conflict or with an exception of the hasher,
  returns the store it was given: every raise comes before the assignment.
\<close>

theorem signup_failure_keeps_store:
  "snd (signup ctx salt db u e p) = Inl x \<Longrightarrow> fst (signup ctx salt db u e p) = db"
  by (auto simp: signup_def Let_def split: if_splits sum.splits)

theorem signup_failure_keeps_store_witness:
  "snd (signup ideal_bcrypt ''s'' [(''alice'', alice)] ''alice'' ''b@y.com'' [112]) =
     Inl (HTTPException 400 ''Username already registered'' None) \<and>
   fst (signup ideal_bcrypt ''s'' [(''alice'', alice)] ''alice'' ''b@y.com'' [112]) =
     [(''alice'', alice)] \<and>
   snd (signup ideal_bcrypt ''s'' [(''alice'', alice)] ''bob'' ''a@x.com'' [112]) =
     Inl (HTTPException 400 ''Email already registered'' None) \<and>
   fst (signup ideal_bcrypt ''s'' [(''alice'', alice)] ''bob'' ''a@x.com'' [112]) =
     [(''alice'', alice)]"
  using
    signup_failure_keeps_store [where ctx = ideal_bcrypt and salt = "''s''"
      and db = "[(''alice'', alice)]" and u = "''alice''" and e = "''b@y.com''" and p = "[112]"
      and x = "HTTPException 400 ''Username already registered'' None"]
    signup_failure_keeps_store [where ctx = ideal_bcrypt and salt = "''s''"
      and db = "[(''alice'', alice)]" and u = "''bob''" and e = "''a@x.com''" and p = "[112]"
      and x = "HTTPException 400 ''Email already registered'' None"]
  by (simp add: signup_def alice_def)

section \<open>Login\<close>

lemma alice_digest_identified: "bcrypt_identify (hashed_password alice)"
  by (simp add: bcrypt_identify_def bcrypt_idents_def alice_def)

lemma wrong_password_example:
  "verify_password ideal_bcrypt [120] (hashed_password alice) = Inr False"
  using alice_digest_identified
  by (simp add: verify_password_def ideal_bcrypt_def ideal_verify_def ideal_checksum_def
      utf8_encode_char_def hex_of_bytes_def hex_digit_def alice_def)

text \<open>
  The two \<open>raise\<close> statements of \<open>login_for_access_token\<close> carry the same status and
  the same detail: a user name that is not in the store, and a stored user name whose
  password the context answers false for, give the same \<open>HTTPException\<close>.
\<close>

lemma login_rejections_alike:
  assumes "map_of db u1 = None"
    and "map_of db u2 = Some d"
    and "verify_password ctx p2 (hashed_password d) = Inr False"
  shows "login_for_access_token ctx jwt key now db u1 p1 =
           Inl (HTTPException 401 ''Incorrect username or password'' None) \<and>
         login_for_access_token ctx jwt key now db u2 p2 =
           login_for_access_token ctx jwt key now db u1 p1"
  using assms by (simp add: login_for_access_token_def)

text \<open>
  The call of \<open>verify_password\<close> is under no \<open>try\<close>: an exception of the context
  leaves \<open>login_for_access_token\<close> as it is, and only for a user name that is in the
  store, since the context is not called for any other.
\<close>

lemma login_lets_hasher_exception_through:
  assumes "map_of db u = Some d"
    and "verify_password ctx p (hashed_password d) = Inl e"
  shows "login_for_access_token ctx jwt key now db u p = Inl e"
  using assms by (simp add: login_for_access_token_def)

text \<open>
  C3 fails at the password \<open>a\<close>, NUL, \<open>b\<close>, in the store that holds \<open>alice\<close> alone,
  reached from the empty store by her registration. It is a wrong password for
  \<open>alice\<close>: the context refuses the NUL and its exception leaves the login of the
  registered \<open>alice\<close>, while the login of the unregistered \<open>bob\<close> with the same
  password raises the \<open>HTTPException\<close> with status 401. The two failures are told
  apart.
\<close>

theorem nul_password_reveals_registration:
  "run ideal_bcrypt ideal_jwt example_key TEMP_USER_DATABASE
     [Register ''alice'' ''a@x.com'' [112, 119] ''saltsaltsaltsaltsalt..''] =
     [(''alice'', alice)] \<and>
   login_for_access_token ideal_bcrypt ideal_jwt example_key example_now
     [(''alice'', alice)] ''alice'' [97, 0, 98] = Inl PasswordValueError \<and>
   login_for_access_token ideal_bcrypt ideal_jwt example_key example_now
     [(''alice'', alice)] ''bob'' [97, 0, 98] =
     Inl (HTTPException 401 ''Incorrect username or password'' None)"
proof -
  have "verify_password ideal_bcrypt [97, 0, 98] (hashed_password alice) = Inl PasswordValueError"
    using alice_digest_identified
    by (simp add: verify_password_def ideal_bcrypt_def ideal_verify_def ideal_checksum_def
        utf8_encode_char_def alice_def)
  then show ?thesis
    by (simp add: login_for_access_token_def TEMP_USER_DATABASE_def example_signup)
qed

section \<open>Identity resolution\<close>




section \<open>Reachable stores\<close>

lemma signup_inv: "store_inv db \<Longrightarrow> store_inv (fst (signup ctx salt db u e p))"
proof -
  assume inv: "store_inv db"
  from signup_store [of ctx salt db u e p] show ?thesis
  proof
    assume "fst (signup ctx salt db u e p) = db"
    with inv show ?thesis by simp
  next
    assume new: "map_of db u = None \<and> e \<notin> set (map (email \<circ> snd) db) \<and>
      (\<exists>h. get_password_hash ctx salt p = Inr h \<and>
        fst (signup ctx salt db u e p) =
          db @ [(u, \<lparr>username = u, email = e, hashed_password = h\<rparr>)])"
    then have "u \<notin> set (map fst db)"
      by (simp add: map_of_eq_None_iff)
    with new inv show ?thesis
      by (auto simp: store_inv_def)
  qed
qed

lemma handle_inv: "store_inv db \<Longrightarrow> store_inv (fst (handle ctx jwt key db r))"
  by (cases r) (simp_all add: case_prod_beta signup_inv)

lemma run_inv: "store_inv db \<Longrightarrow> store_inv (run ctx jwt key db rs)"
  by (induction rs arbitrary: db) (simp_all add: handle_inv)

text \<open>
  C7. In every store that a sequence of registrations, logins and identity resolutions
  reaches from the empty \<open>TEMP_USER_DATABASE\<close>, the user names of the records are
  pairwise distinct and their e-mail addresses are pairwise distinct.
\<close>

theorem reachable_store_unique:
  "distinct (map (username \<circ> snd) (run ctx jwt key TEMP_USER_DATABASE rs)) \<and>
   distinct (map (email \<circ> snd) (run ctx jwt key TEMP_USER_DATABASE rs))"
proof -
  have "store_inv TEMP_USER_DATABASE"
    by (simp add: store_inv_def TEMP_USER_DATABASE_def)
  then have "store_inv (run ctx jwt key TEMP_USER_DATABASE rs)"
    by (rule run_inv)
  then show ?thesis
    unfolding store_inv_def by metis
qed

lemma example_run:
  "run ideal_bcrypt ideal_jwt example_key TEMP_USER_DATABASE
     [Register ''alice'' ''a@x.com'' [112, 119] ''saltsaltsaltsaltsalt..'',
      Register ''alice'' ''b@y.com'' [112] ''s'',
      Login ''alice'' [112, 119] example_now,
      Register ''bob'' ''a@x.com'' [112] ''s''] = [(''alice'', alice)]"
  by (simp add: TEMP_USER_DATABASE_def example_signup)
    (simp add: signup_def alice_def)

theorem reachable_store_unique_witness:
  "run ideal_bcrypt ideal_jwt example_key TEMP_USER_DATABASE
     [Register ''alice'' ''a@x.com'' [112, 119] ''saltsaltsaltsaltsalt..'',
      Register ''alice'' ''b@y.com'' [112] ''s'',
      Login ''alice'' [112, 119] example_now,
      Register ''bob'' ''a@x.com'' [112] ''s''] = [(''alice'', alice)] \<and>
   distinct (map (username \<circ> snd) [(''alice'', alice)]) \<and>
   distinct (map (email \<circ> snd) [(''alice'', alice)])"
  using reachable_store_unique [where ctx = ideal_bcrypt and jwt = ideal_jwt
      and key = example_key
      and rs = "[Register ''alice'' ''a@x.com'' [112, 119] ''saltsaltsaltsaltsalt..'',
                 Register ''alice'' ''b@y.com'' [112] ''s'',
                 Login ''alice'' [112, 119] example_now,
                 Register ''bob'' ''a@x.com'' [112] ''s'']"]
    example_run
  by simp

section \<open>Token round trip and expiry\<close>

lemma ideal_jwt_round_trip: "jwt_round_trip ideal_jwt key"
proof -
  have "\<not> t div 1000000 < now div 1000000" if "now < t" for t now :: int
    using that zdiv_mono1 [of now t 1000000] by simp
  then show ?thesis
    by (simp add: jwt_round_trip_def ideal_jwt_def ideal_encode_def ideal_decode_def
        json_claims_def dict_get_def check_sub_def ALGORITHM_def)
qed

lemma floor_second_ahead: "(now::int) < (now + 3600000000) div 1000000 * 1000000"
proof -
  define x where "x = now + 3600000000"
  have "x div 1000000 * 1000000 = x - x mod 1000000"
    by (simp add: minus_mod_eq_div_mult)
  moreover have "x mod 1000000 < 1000000"
    by simp
  ultimately show ?thesis
    unfolding x_def by linarith
qed

lemma to_encode_sub:
  "to_encode now [(''sub'', CStr u)] None =
     [(''sub'', CStr u), (''exp'', CDatetime (now + 3600000000))]"
  by (simp add: to_encode_def timedelta_minutes_def ACCESS_TOKEN_EXPIRE_MINUTES_def)

text \<open>
  C2. Given a library whose \<open>decode\<close> undoes its \<open>encode\<close> under the service's key
  (\<open>jwt_round_trip\<close>): for every user name \<open>u\<close>, \<open>create_access_token\<close> on
  \<open>{"sub": u}\<close> returns a token; decoding it at the same instant with the same key
  gives a payload whose subject is \<open>u\<close> and whose expiry, in seconds, lies
  strictly after that instant; and the \<open>try\<close> block of \<open>get_current_user\<close> reads
  exactly \<open>u\<close> from it.
\<close>

theorem token_round_trip:
  assumes "jwt_round_trip jwt key"
  shows "\<exists>tok payload e.
           create_access_token jwt key now [(''sub'', CStr u)] None = Inr tok \<and>
           jwt_decode jwt tok key [ALGORITHM] now = Inr payload \<and>
           dict_get payload ''sub'' = CStr u \<and>
           dict_get payload ''exp'' = CInt e \<and> now < e * 1000000 \<and>
           token_data_username jwt key now tok = Inr u"
proof -
  have "now < now + 3600000000" by simp
  with assms obtain tok payload where
    enc: "jwt_encode jwt [(''sub'', CStr u), (''exp'', CDatetime (now + 3600000000))] key
            ALGORITHM = Inr tok"
    and dec: "jwt_decode jwt tok key [ALGORITHM] now = Inr payload"
    and sub: "dict_get payload ''sub'' = CStr u"
    and exp: "dict_get payload ''exp'' = CInt ((now + 3600000000) div 1000000)"
    unfolding jwt_round_trip_def by blast
  have "now < (now + 3600000000) div 1000000 * 1000000"
    by (rule floor_second_ahead)
  with enc dec sub exp show ?thesis
    by (simp add: create_access_token_def to_encode_sub token_data_username_def)
qed

theorem token_round_trip_witness:
  "jwt_round_trip ideal_jwt example_key \<and>
   (\<exists>tok payload e.
      create_access_token ideal_jwt example_key example_now [(''sub'', CStr ''alice'')] None =
        Inr tok \<and>
      jwt_decode ideal_jwt tok example_key [ALGORITHM] example_now = Inr payload \<and>
      dict_get payload ''sub'' = CStr ''alice'' \<and>
      dict_get payload ''exp'' = CInt e \<and> example_now < e * 1000000 \<and>
      token_data_username ideal_jwt example_key example_now tok = Inr ''alice'')"
  using token_round_trip [OF ideal_jwt_round_trip, of example_key example_now "''alice''"]
    ideal_jwt_round_trip [of example_key]
  by simp

text \<open>
  \<open>if expires_delta:\<close> is false for \<open>timedelta(0)\<close>, so a zero time-to-live is
  replaced by the default of 60 minutes, whatever the library.
\<close>

lemma to_encode_zero: "to_encode now data (Some 0) = to_encode now data None"
  by (simp add: to_encode_def)

text \<open>
  C5 at \<open>expires_delta = timedelta(0)\<close>: the token that \<open>create_access_token\<close> issues
  for \<open>alice\<close> expires 3600 seconds after the instant of issue, and \<open>get_current_user\<close>
  accepts it at that very instant.
\<close>

theorem zero_ttl_token_verifies:
  "create_access_token ideal_jwt example_key example_now [(''sub'', CStr ''alice'')] (Some 0) =
     Inr (Signed ''HS256'' example_key
            [(''sub'', CStr ''alice''), (''exp'', CInt 1700003600)]) \<and>
   get_current_user ideal_jwt example_key example_now [(''alice'', alice)]
     (Signed ''HS256'' example_key
        [(''sub'', CStr ''alice''), (''exp'', CInt 1700003600)]) = Inr alice"
  by (simp add: create_access_token_def to_encode_def timedelta_minutes_def
      ACCESS_TOKEN_EXPIRE_MINUTES_def ALGORITHM_def ideal_jwt_def ideal_encode_def
      ideal_decode_def json_claims_def get_current_user_def token_data_username_def
      dict_get_def check_sub_def example_now_def)

text \<open>A time-to-live of minus one second gives a token that is rejected at once.\<close>

lemma negative_ttl_token_rejected:
  "create_access_token ideal_jwt example_key example_now [(''sub'', CStr ''alice'')]
     (Some (- 1000000)) =
     Inr (Signed ''HS256'' example_key
            [(''sub'', CStr ''alice''), (''exp'', CInt 1699999999)]) \<and>
   get_current_user ideal_jwt example_key example_now [(''alice'', alice)]
     (Signed ''HS256'' example_key
        [(''sub'', CStr ''alice''), (''exp'', CInt 1699999999)]) = Inl credentials_exception"
  by (simp add: create_access_token_def to_encode_def timedelta_minutes_def
      ACCESS_TOKEN_EXPIRE_MINUTES_def ALGORITHM_def ideal_jwt_def ideal_encode_def
      ideal_decode_def json_claims_def get_current_user_def token_data_username_def
      dict_get_def check_sub_def example_now_def)

section \<open>Password hashing and verification\<close>

text \<open>
  The password of 71 letters \<open>a\<close> followed by \<open>U+00E9\<close> has 73 bytes in UTF-8; the cut
  at 72 bytes splits the last character, which \<open>errors='ignore'\<close> then drops. Whatever
  the context, \<open>get_password_hash\<close> hashes the 71 letters.
\<close>

lemma straddling_hash_input:
  "get_password_hash ctx salt (replicate 71 97 @ [233]) = ctx_hash ctx salt (replicate 71 97)"
proof -
  have "(case utf8_encode (replicate 71 97 @ [233]) of
           Inl e \<Rightarrow> None | Inr bs \<Rightarrow> Some (utf8_decode_ignore (take 72 bs))) =
        Some (replicate 71 97)"
    by code_simp
  then show ?thesis
    by (simp add: get_password_hash_def Let_def split: sum.splits)
qed

text \<open>
  C1 at that password: \<open>get_password_hash\<close> returns the digest of the 71 letters, and
  \<open>verify_password\<close>, which hands the whole password to the context, returns false
  for the password against its own digest.
\<close>

theorem straddling_password_fails_verify:
  "get_password_hash ideal_bcrypt ''saltsaltsaltsaltsalt..'' (replicate 71 97 @ [233]) =
     Inr (''$2b$12$saltsaltsaltsaltsalt..'' @ concat (replicate 71 ''61'')) \<and>
   verify_password ideal_bcrypt (replicate 71 97 @ [233])
     (''$2b$12$saltsaltsaltsaltsalt..'' @ concat (replicate 71 ''61'')) = Inr False"
  by code_simp

text \<open>
  C8 as stated fails: on a string that is no bcrypt digest the context raises, and
  \<open>verify_password\<close> lets the exception through.
\<close>

theorem malformed_digest_raises:
  "verify_password ideal_bcrypt [112, 119] ''not-a-bcrypt-digest'' = Inl UnknownHashError"
  by (simp add: verify_password_def ideal_bcrypt_def ideal_verify_def bcrypt_identify_def
      bcrypt_idents_def)

text \<open>
  C8 as amended. For every plaintext and every digest that bears none of the bcrypt
  identifiers, verification does not return false: the context raises
  \<open>UnknownHashError\<close> whatever the plaintext, and \<open>verify_password\<close>, which has
  no handler, raises it past the verify boundary.
\<close>

theorem unidentified_digest_raises:
  assumes "\<not> bcrypt_identify d"
  shows "verify_password ideal_bcrypt p d = Inl UnknownHashError"
  using assms by (simp add: verify_password_def ideal_bcrypt_def ideal_verify_def)

theorem unidentified_digest_raises_witness:
  "\<not> bcrypt_identify ''$2z$12$saltsaltsaltsaltsalt..7077'' \<and>
   verify_password ideal_bcrypt [112, 119] ''$2z$12$saltsaltsaltsaltsalt..7077'' =
     Inl UnknownHashError"
  using unidentified_digest_raises [where d = "''$2z$12$saltsaltsaltsaltsalt..7077''"
      and p = "[112, 119]"]
  by (simp add: bcrypt_identify_def bcrypt_idents_def)

end
